theory Spec2Isabelle
  imports Main "HOL-Library.Sublist"
begin

section \<open>Data model of the admission webhook\<close>

text \<open>
  The types below carry the fields that the functions of \<^verbatim>\<open>pods.go\<close> read or write.
  Go strings are byte strings and become \<^typ>\<open>string\<close>. A Go map that is only looked
  up is a HOL map; the annotation map is iterated with \<^verbatim>\<open>range\<close>, so it is an
  association list whose order is the iteration order of the run at hand.
\<close>

record GroupVersionResource =
  Group :: string
  Version :: string
  Resource :: string

record Container =
  Name :: string
  Image :: string

record Pod =
  Labels :: "string \<rightharpoonup> string"
  Annotations :: "(string \<times> string) list"
  Containers :: "Container list"
  InitContainers :: "Container list"

record PodAttachOptions =
  Stdin :: bool
  Container :: string

record AdmissionRequest =
  Request_Name :: string
  Request_Resource :: GroupVersionResource
  Request_SubResource :: string
  Request_Object_Raw :: string

record Status =
  Status :: string
  Message :: string
  Code :: int

datatype PatchType = PatchTypeJSONPatch

record AdmissionResponse =
  Allowed :: bool
  Result :: "Status option"
  Patch :: "string option"
  PatchType :: "PatchType option"

text \<open>
  A Go call returns, panics, or blocks for ever. The functions return a pointer, and
  \<^verbatim>\<open>nil\<close> is \<^term>\<open>None\<close>.
\<close>

datatype 'a outcome = Returns 'a | Panics | Blocks

type_synonym response = "AdmissionResponse option outcome"

definition podResource :: GroupVersionResource where
  \<open>podResource = \<lparr>Group = [], Version = ''v1'', Resource = ''pods''\<rparr>\<close>

definition emptyResponse :: AdmissionResponse where
  \<open>emptyResponse = \<lparr>Allowed = False, Result = None, Patch = None, PatchType = None\<rparr>\<close>

definition emptyStatus :: Status where
  \<open>emptyStatus = \<lparr>Status = [], Message = [], Code = 0\<rparr>\<close>

text \<open>
  Modelled from the spec: \<^verbatim>\<open>toV1AdmissionResponse\<close> is called by \<^verbatim>\<open>pods.go\<close> and
  defined in a file that is not part of the sources at hand. The specification says that
  a resource mismatch or a decode error is "surfaced as a structured admission-response
  error (allowed=false, message)".
\<close>

definition toV1AdmissionResponse :: "string \<Rightarrow> AdmissionResponse" where
  \<open>toV1AdmissionResponse err = emptyResponse\<lparr>Result := Some (emptyStatus\<lparr>Message := err\<rparr>)\<rparr>\<close>

section \<open>Library functions used by the code\<close>

text \<open>\<^verbatim>\<open>strings.Contains\<close>: whether the second string occurs in the first.\<close>

fun Contains :: "string \<Rightarrow> string \<Rightarrow> bool" where
  \<open>Contains [] substr = (substr = [])\<close>
| \<open>Contains (c # s) substr = (prefix substr (c # s) \<or> Contains s substr)\<close>

text \<open>\<^verbatim>\<open>strconv.Itoa\<close> and the verb \<^verbatim>\<open>%d\<close>, on the loop counters, which start at 0 and
  only grow.\<close>

definition digit :: "nat \<Rightarrow> char" where
  \<open>digit d = ''0123456789'' ! d\<close>

fun Itoa :: "nat \<Rightarrow> string" where
  \<open>Itoa n = (if n < 10 then [digit n] else Itoa (n div 10) @ [digit (n mod 10)])\<close>

declare Itoa.simps [simp del]

text \<open>\<^verbatim>\<open>strings.TrimSpace\<close> on the ASCII white space; the only string it is applied to is
  built from ASCII literals.\<close>

definition isSpace :: "char \<Rightarrow> bool" where
  \<open>isSpace c = (c \<in> {CHR '' '', CHR 0x09, CHR 0x0A, CHR 0x0B, CHR 0x0C, CHR 0x0D})\<close>

definition TrimSpace :: "string \<Rightarrow> string" where
  \<open>TrimSpace s = rev (dropWhile isSpace (rev (dropWhile isSpace s)))\<close>

text \<open>The verb \<^verbatim>\<open>%s\<close> on a \<^verbatim>\<open>GroupVersionResource\<close> value prints its fields in braces.\<close>

definition fmt_gvr :: "GroupVersionResource \<Rightarrow> string" where
  \<open>fmt_gvr g = ''{'' @ Group g @ '' '' @ Version g @ '' '' @ Resource g @ ''}''\<close>

section \<open>The patch templates of pods.go\<close>

definition podsSidecarPatch :: "string \<Rightarrow> string" where
  \<open>podsSidecarPatch img =
     ''['' @ [CHR 0x0A, CHR 0x09, CHR 0x09]
     @ ''{"op":"add", "path":"/spec/containers/-","value":{"image":"'' @ img
     @ ''","name":"webhook-added-sidecar","volumeMounts":[{"name":"vol","mountPath":"/tmp"}],"resources":{}}}''
     @ [CHR 0x0A, CHR 0x09] @ '']''\<close>

definition initContainersShell :: "string \<Rightarrow> string" where
  \<open>initContainersShell s = ''{"op":"add","path":"/spec/initContainers","value":['' @ s @ '']},''\<close>

definition initContainerEntry :: "string \<Rightarrow> nat \<Rightarrow> string \<Rightarrow> string" where
  \<open>initContainerEntry img n annotation =
     ''{"image":"'' @ img @ ''","name":"secrets-init-container-'' @ Itoa n
     @ ''","volumeMounts":[{"name":"secret-vol","mountPath":"/tmp"}],"env":[{"name": "SECRET_ARN","valueFrom": {"fieldRef": {"fieldPath": "metadata.annotations[''
     @ [CHR 0x27] @ annotation @ [CHR 0x27] @ '']"}}}],"resources":{}},''\<close>

definition secretsMountPointPatch :: string where
  \<open>secretsMountPointPatch =
     ''{"op":"add","path":"/spec/volumes/-","value":{"emptyDir": {"medium": "Memory"},"name": "secret-vol"}}''\<close>

section \<open>pods.go\<close>

text \<open>
  From \<^verbatim>\<open>src/admission-controller/pods.go\<close>. The functions take as parameters what the code gets from outside: the decoder of the
  raw object (\<^verbatim>\<open>deserializer.Decode\<close>, an error text or the decoded value), the
  package variable \<^verbatim>\<open>sidecarImage\<close>, and the text of the UUID that \<^verbatim>\<open>uuid.New()\<close>
  draws in the request at hand. Logging is left out.
\<close>

subsection \<open>admitPods\<close>

definition admitContainer :: "Container \<Rightarrow> bool \<times> string \<Rightarrow> bool \<times> string" where
  \<open>admitContainer container st =
     (if Contains (Name container) ''webhook-disallow''
      then (False, snd st @ ''the pod contains unwanted container name; '')
      else st)\<close>

text \<open>The check of the label \<^verbatim>\<open>webhook-e2e-test\<close>, on \<^verbatim>\<open>reviewResponse.Allowed\<close> and
  \<^verbatim>\<open>msg\<close>. The receive from the fresh channel never ends.\<close>

definition admitLabel :: "Pod \<Rightarrow> (bool \<times> string) outcome" where
  \<open>admitLabel pod =
     (case Labels pod ''webhook-e2e-test'' of
        Some v \<Rightarrow>
          let st = (if v = ''webhook-disallow''
                    then (False, ''the pod contains unwanted label; '')
                    else (True, []))
          in if v = ''wait-forever'' then Blocks else Returns st
      | None \<Rightarrow> Returns (True, []))\<close>

definition admitPods :: "(string \<Rightarrow> string + Pod) \<Rightarrow> AdmissionRequest \<Rightarrow> response" where
  \<open>admitPods decodePod ar =
     (if Request_Resource ar \<noteq> podResource
      then Returns (Some (toV1AdmissionResponse (''expect resource to be '' @ fmt_gvr podResource)))
      else case decodePod (Request_Object_Raw ar) of
        Inl err \<Rightarrow> Returns (Some (toV1AdmissionResponse err))
      | Inr pod \<Rightarrow>
         (case admitLabel pod of
            Returns st \<Rightarrow>
              let (allowed, msg) = fold admitContainer (Containers pod) st
              in Returns (Some (emptyResponse
                   \<lparr>Allowed := allowed,
                    Result := (if \<not> allowed
                               then Some (emptyStatus\<lparr>Message := TrimSpace msg\<rparr>)
                               else None)\<rparr>))
          | Panics \<Rightarrow> Panics
          | Blocks \<Rightarrow> Blocks))\<close>

subsection \<open>processAnnotations\<close>

text \<open>The loop over the annotations, with its two variables \<^verbatim>\<open>patch\<close> and
  \<^verbatim>\<open>initCount\<close>.\<close>

fun annotationsLoop :: "string \<Rightarrow> (string \<times> string) list \<Rightarrow> string \<Rightarrow> nat \<Rightarrow> string" where
  \<open>annotationsLoop sidecarImage [] patch initCount = patch\<close>
| \<open>annotationsLoop sidecarImage ((annotation, v) # rest) patch initCount =
     (if Contains annotation ''secrets.k8s.aws''
      then (if annotation = ''secrets.k8s.aws/sidecarInjectorWebhook''
            then annotationsLoop sidecarImage rest patch initCount
            else annotationsLoop sidecarImage rest
                   (patch @ initContainerEntry sidecarImage initCount annotation)
                   (Suc initCount))
      else annotationsLoop sidecarImage rest patch initCount)\<close>

text \<open>The slice \<^verbatim>\<open>patch[:len(patch)-1]\<close> panics on the empty string.\<close>

definition processAnnotations :: "string \<Rightarrow> Pod \<Rightarrow> string outcome" where
  \<open>processAnnotations sidecarImage pod =
     (let patch = annotationsLoop sidecarImage (Annotations pod) [] 0
      in if patch = [] then Panics
         else Returns (''['' @ initContainersShell (butlast patch) @ secretsMountPointPatch))\<close>

subsection \<open>hasContainer and applyPodPatch\<close>

fun hasContainer :: "Container list \<Rightarrow> string \<Rightarrow> bool" where
  \<open>hasContainer [] containerName = False\<close>
| \<open>hasContainer (container # containers) containerName =
     (if Name container = containerName then True else hasContainer containers containerName)\<close>

definition volumeMountPatch :: "string \<Rightarrow> nat \<Rightarrow> string" where
  \<open>volumeMountPatch mountLocation i =
     ''{"op": "add","path": "/spec/containers/'' @ Itoa i
     @ ''/volumeMounts/-","value": {"mountPath": "/tmp/'' @ mountLocation
     @ ''","name": "secret-vol"}}''\<close>

definition envPatch :: "nat \<Rightarrow> string \<Rightarrow> string" where
  \<open>envPatch i mountLocation =
     ''{"op":"add","path":"/spec/containers/'' @ Itoa i
     @ ''/env/-","value":{"name":"SEC_LOC","value":"/tmp/'' @ mountLocation @ ''"}}''\<close>

text \<open>One round of the loop over the container indices, on \<^verbatim>\<open>volMounts\<close> and
  \<^verbatim>\<open>envPatches\<close>.\<close>

definition containerStep :: "string \<Rightarrow> nat \<Rightarrow> string \<times> string \<Rightarrow> string \<times> string" where
  \<open>containerStep mountLocation i st =
     (if i = 0
      then (volumeMountPatch mountLocation i, envPatch i mountLocation)
      else (fst st @ '','' @ volumeMountPatch mountLocation i,
            snd st @ '','' @ envPatch i mountLocation))\<close>

definition applyPodPatch ::
  "(string \<Rightarrow> string + Pod) \<Rightarrow> string \<Rightarrow> string \<Rightarrow> AdmissionRequest \<Rightarrow> (Pod \<Rightarrow> bool) \<Rightarrow> string
   \<Rightarrow> response" where
  \<open>applyPodPatch decodePod sidecarImage mountLocation ar shouldPatchPod patch1 =
     (if Request_Resource ar \<noteq> podResource then Returns None
      else case decodePod (Request_Object_Raw ar) of
        Inl err \<Rightarrow> Returns (Some (toV1AdmissionResponse err))
      | Inr pod \<Rightarrow>
          if shouldPatchPod pod
          then (case processAnnotations sidecarImage pod of
                  Returns patch \<Rightarrow>
                    let (volMounts, envPatches) =
                          fold (containerStep mountLocation) [0 ..< length (Containers pod)] ([], [])
                    in Returns (Some (emptyResponse
                         \<lparr>Allowed := True,
                          Patch := Some (patch @ '','' @ volMounts @ '','' @ envPatches @ '']''),
                          PatchType := Some PatchTypeJSONPatch\<rparr>))
                | Panics \<Rightarrow> Panics
                | Blocks \<Rightarrow> Blocks)
          else Returns (Some (emptyResponse\<lparr>Allowed := True\<rparr>)))\<close>

subsection \<open>mutatePods and mutatePodsSidecar\<close>

fun secretFoundLoop :: "(string \<times> string) list \<Rightarrow> bool \<Rightarrow> bool" where
  \<open>secretFoundLoop [] secretFound = secretFound\<close>
| \<open>secretFoundLoop ((annotation, v) # rest) secretFound =
     (if Contains annotation ''secrets.k8s.aws''
      then (if annotation = ''secrets.k8s.aws/sidecarInjectorWebhook''
            then secretFoundLoop rest secretFound
            else secretFoundLoop rest True)
      else secretFoundLoop rest secretFound)\<close>

definition shouldPatchPod :: "Pod \<Rightarrow> bool" where
  \<open>shouldPatchPod pod =
     (if \<not> secretFoundLoop (Annotations pod) False then False
      else \<not> hasContainer (InitContainers pod) ''secrets-init-container'')\<close>

definition mutatePods ::
  "(string \<Rightarrow> string + Pod) \<Rightarrow> string \<Rightarrow> string \<Rightarrow> AdmissionRequest \<Rightarrow> response" where
  \<open>mutatePods decodePod sidecarImage mountLocation ar =
     applyPodPatch decodePod sidecarImage mountLocation ar shouldPatchPod []\<close>

definition shouldPatchPodSidecar :: "Pod \<Rightarrow> bool" where
  \<open>shouldPatchPodSidecar pod = (\<not> hasContainer (Containers pod) ''webhook-added-sidecar'')\<close>

definition mutatePodsSidecar ::
  "(string \<Rightarrow> string + Pod) \<Rightarrow> string \<Rightarrow> string \<Rightarrow> AdmissionRequest \<Rightarrow> response" where
  \<open>mutatePodsSidecar decodePod sidecarImage mountLocation ar =
     (if sidecarImage = []
      then Returns (Some (emptyResponse
             \<lparr>Allowed := False,
              Result := Some \<lparr>Status = ''Failure'',
                              Message = ''No image specified by the sidecar-image parameter'',
                              Code = 500\<rparr>\<rparr>))
      else applyPodPatch decodePod sidecarImage mountLocation ar shouldPatchPodSidecar
             (podsSidecarPatch sidecarImage))\<close>

subsection \<open>denySpecificAttachment\<close>

definition denySpecificAttachment ::
  "(string \<Rightarrow> string + PodAttachOptions) \<Rightarrow> AdmissionRequest \<Rightarrow> response" where
  \<open>denySpecificAttachment decodeOptions ar =
     (if Request_Name ar \<noteq> ''to-be-attached-pod''
      then Returns (Some (emptyResponse\<lparr>Allowed := True\<rparr>))
      else if podResource \<noteq> Request_Resource ar
      then Returns (Some (toV1AdmissionResponse
             (''expect resource to be '' @ fmt_gvr podResource @ '', got ''
              @ fmt_gvr (Request_Resource ar))))
      else if ''attach'' \<noteq> Request_SubResource ar
      then Returns (Some (toV1AdmissionResponse
             (''expect subresource to be attach, got '' @ Request_SubResource ar)))
      else case decodeOptions (Request_Object_Raw ar) of
        Inl err \<Rightarrow> Returns (Some (toV1AdmissionResponse err))
      | Inr podAttachOptions \<Rightarrow>
          if \<not> Stdin podAttachOptions \<or> Container podAttachOptions \<noteq> ''container1''
          then Returns (Some (emptyResponse\<lparr>Allowed := True\<rparr>))
          else Returns (Some (emptyResponse
                 \<lparr>Allowed := False,
                  Result := Some (emptyStatus
                    \<lparr>Message := ''attaching to pod 'to-be-attached-pod' is not allowed''\<rparr>)\<rparr>)))\<close>

section \<open>The legacy variant of pods.go\<close>

text \<open>
  The second copy of the file (\<^verbatim>\<open>src/unnamed/part_001\<close>) differs from the first in \<^verbatim>\<open>processAnnotations\<close>,
  \<^verbatim>\<open>mutatePods\<close> and \<^verbatim>\<open>applyPodPatch\<close>; its \<^verbatim>\<open>admitPods\<close>,
  \<^verbatim>\<open>mutatePodsSidecar\<close>, \<^verbatim>\<open>hasContainer\<close> and \<^verbatim>\<open>denySpecificAttachment\<close> are the same
  text, and so are the templates \<^verbatim>\<open>initContainersShell\<close>, \<^verbatim>\<open>initContainerEntry\<close> and
  \<^verbatim>\<open>secretsMountPointPatch\<close>.
\<close>

definition legacy_podsInitContainerPatch :: "string \<Rightarrow> string" where
  \<open>legacy_podsInitContainerPatch img =
     ''[{"op":"add","path":"/spec/initContainers","value":[{"image":"'' @ img
     @ ''","name":"secrets-init-container","volumeMounts":[{"name":"secret-vol","mountPath":"/tmp"}],"env":[{"name": "SECRET_ARN","valueFrom": {"fieldRef": {"fieldPath": "metadata.annotations[''
     @ [CHR 0x27] @ ''secrets.k8s.aws/secret-arn'' @ [CHR 0x27]
     @ '']"}}}],"resources":{}}]},{"op":"add","path":"/spec/volumes/-","value":{"emptyDir": {"medium": "Memory"},"name": "secret-vol"}}''\<close>

text \<open>The template \<^verbatim>\<open>podsInitContainerPatchEntry\<close> has the verbs \<^verbatim>\<open>%v %d %v\<close> and is
  formatted with two strings: the second verb gets a string and the third gets nothing,
  which \<^verbatim>\<open>fmt.Sprintf\<close> writes out as below.\<close>

definition legacy_podsInitContainerPatchEntry :: "string \<Rightarrow> string \<Rightarrow> string" where
  \<open>legacy_podsInitContainerPatchEntry img annotation =
     ''{"op":"add","path":"/spec/initContainers","value":[{"image":"'' @ img
     @ ''","name":"secrets-init-container-%!d(string='' @ annotation
     @ '')","volumeMounts":[{"name":"secret-vol","mountPath":"/tmp"}],"env":[{"name": "SECRET_ARN","valueFrom": {"fieldRef": {"fieldPath": "metadata.annotations[''
     @ [CHR 0x27] @ ''%!v(MISSING)'' @ [CHR 0x27] @ '']"}}}],"resources":{}}]},''\<close>

fun legacy_entriesLoop ::
  "string \<Rightarrow> (string \<times> string) list \<Rightarrow> string list \<Rightarrow> nat \<Rightarrow> string list" where
  \<open>legacy_entriesLoop sidecarImage [] patches initCount = patches\<close>
| \<open>legacy_entriesLoop sidecarImage ((annotation, v) # rest) patches initCount =
     (if Contains annotation ''secrets.k8s.aws''
      then (if annotation = ''secrets.k8s.aws/sidecarInjectorWebhook''
            then legacy_entriesLoop sidecarImage rest patches initCount
            else legacy_entriesLoop sidecarImage rest
                   (patches @ [initContainerEntry sidecarImage initCount annotation])
                   (Suc initCount))
      else legacy_entriesLoop sidecarImage rest patches initCount)\<close>

definition legacy_processAnnotations :: "string \<Rightarrow> Pod \<Rightarrow> string outcome" where
  \<open>legacy_processAnnotations sidecarImage pod =
     (let patches = legacy_entriesLoop sidecarImage (Annotations pod) [] 0;
          patch = fold (\<lambda>p patch. patch @ p) patches []
      in if patch = [] then Panics
         else Returns (''['' @ initContainersShell (butlast patch) @ secretsMountPointPatch))\<close>

fun legacy_patchesLoop :: "string \<Rightarrow> (string \<times> string) list \<Rightarrow> string list \<Rightarrow> string list" where
  \<open>legacy_patchesLoop sidecarImage [] patches = patches\<close>
| \<open>legacy_patchesLoop sidecarImage ((annotation, v) # rest) patches =
     (if Contains annotation ''secrets.k8s.aws''
      then (if annotation = ''secrets.k8s.aws/sidecarInjectorWebhook''
            then legacy_patchesLoop sidecarImage rest patches
            else legacy_patchesLoop sidecarImage rest
                   (patches @ [legacy_podsInitContainerPatchEntry sidecarImage annotation]))
      else legacy_patchesLoop sidecarImage rest patches)\<close>

text \<open>The closure \<^verbatim>\<open>shouldPatchPod\<close> of the legacy \<^verbatim>\<open>mutatePods\<close>. It builds a string
  \<^verbatim>\<open>patch\<close> that it never uses.\<close>

definition legacy_shouldPatchPod :: "string \<Rightarrow> Pod \<Rightarrow> bool" where
  \<open>legacy_shouldPatchPod sidecarImage pod =
     (let patches = legacy_patchesLoop sidecarImage (Annotations pod) []
      in if length patches = 0 then False
         else
           let patch = fold (\<lambda>p patch. patch @ p) patches ''['' @ secretsMountPointPatch
           in (case map_of (Annotations pod) ''secrets.k8s.aws/secret-arn'' of
                 None \<Rightarrow> False
               | Some arn \<Rightarrow> \<not> hasContainer (InitContainers pod) ''secrets-init-container''))\<close>

definition legacy_volumeMountPatch :: "nat \<Rightarrow> string" where
  \<open>legacy_volumeMountPatch i =
     ''{"op": "add","path": "/spec/containers/'' @ Itoa i
     @ ''/volumeMounts/-","value": {"mountPath": "/tmp/","name": "secret-vol"}}''\<close>

definition legacy_containerStep :: "nat \<Rightarrow> string \<Rightarrow> string" where
  \<open>legacy_containerStep i volMounts =
     (if i = 0 then legacy_volumeMountPatch i
      else volMounts @ '','' @ legacy_volumeMountPatch i)\<close>

definition legacy_applyPodPatch ::
  "(string \<Rightarrow> string + Pod) \<Rightarrow> string \<Rightarrow> AdmissionRequest \<Rightarrow> (Pod \<Rightarrow> bool) \<Rightarrow> string
   \<Rightarrow> response" where
  \<open>legacy_applyPodPatch decodePod sidecarImage ar shouldPatch patch1 =
     (if Request_Resource ar \<noteq> podResource then Returns None
      else case decodePod (Request_Object_Raw ar) of
        Inl err \<Rightarrow> Returns (Some (toV1AdmissionResponse err))
      | Inr pod \<Rightarrow>
          if shouldPatch pod
          then (case legacy_processAnnotations sidecarImage pod of
                  Returns patch \<Rightarrow>
                    let volMounts = fold legacy_containerStep [0 ..< length (Containers pod)] []
                    in Returns (Some (emptyResponse
                         \<lparr>Allowed := True,
                          Patch := Some (patch @ '','' @ volMounts @ '']''),
                          PatchType := Some PatchTypeJSONPatch\<rparr>))
                | Panics \<Rightarrow> Panics
                | Blocks \<Rightarrow> Blocks)
          else Returns (Some (emptyResponse\<lparr>Allowed := True\<rparr>)))\<close>

definition legacy_mutatePods ::
  "(string \<Rightarrow> string + Pod) \<Rightarrow> string \<Rightarrow> AdmissionRequest \<Rightarrow> response" where
  \<open>legacy_mutatePods decodePod sidecarImage ar =
     legacy_applyPodPatch decodePod sidecarImage ar (legacy_shouldPatchPod sidecarImage)
       (legacy_podsInitContainerPatch sidecarImage)\<close>

section \<open>The secret-fetch program: writeOutput\<close>

text \<open>
  From \<^verbatim>\<open>src/unnamed/part_000\<close>. The file \<^verbatim>\<open>/tmp/secret\<close> is the state: whether \<^verbatim>\<open>os.OpenFile\<close> succeeds on it, and
  its contents (\<^term>\<open>None\<close> when it does not exist). \<^verbatim>\<open>json.Unmarshal\<close> into a
  \<^verbatim>\<open>map[string]string\<close> is a parameter: it gives an error text, or the pairs of the map
  in the order in which the loop meets them. The file is opened for appending and is
  created when it is missing.
\<close>

record SecretFile =
  Openable :: bool
  Contents :: "string option"

definition exportLine :: "string \<Rightarrow> string \<Rightarrow> string" where
  \<open>exportLine k v = ''export '' @ k @ ''='' @ v @ '';'' @ [CHR 0x0A]\<close>

definition writeOutput ::
  "(string \<Rightarrow> string + (string \<times> string) list) \<Rightarrow> string \<Rightarrow> SecretFile \<Rightarrow> SecretFile" where
  \<open>writeOutput Unmarshal output f =
     (case Unmarshal output of
        Inl err \<Rightarrow> f
      | Inr uj \<Rightarrow>
          if \<not> Openable f then f
          else f\<lparr>Contents :=
                   Some (fold (\<lambda>(k, v) written. written @ exportLine k v) uj
                           (case Contents f of None \<Rightarrow> [] | Some old \<Rightarrow> old))\<rparr>)\<close>

section \<open>Notions used to state the properties\<close>

text \<open>The annotation keys that the scanning loops act on: those that contain the
  namespace string, the toggle key apart.\<close>

definition secretAnnotation :: "string \<Rightarrow> bool" where
  \<open>secretAnnotation annotation =
     (Contains annotation ''secrets.k8s.aws''
      \<and> annotation \<noteq> ''secrets.k8s.aws/sidecarInjectorWebhook'')\<close>

definition secretAnnotations :: "Pod \<Rightarrow> string list" where
  \<open>secretAnnotations pod = filter secretAnnotation (map fst (Annotations pod))\<close>

text \<open>The init container entries for a list of keys, numbered from \<open>n\<close>.\<close>

fun initContainerEntries :: "string \<Rightarrow> nat \<Rightarrow> string list \<Rightarrow> string" where
  \<open>initContainerEntries img n [] = []\<close>
| \<open>initContainerEntries img n (k # ks) =
     initContainerEntry img n k @ initContainerEntries img (Suc n) ks\<close>

text \<open>
  The pod once the patch of \<^verbatim>\<open>mutatePods\<close> has been applied to it: the first operation
  of the patch sets \<^verbatim>\<open>/spec/initContainers\<close> to the injected containers, one for each
  scanned key. The other operations add a volume, and a mount and a variable to each
  container, none of which the functions read.
\<close>

definition injected :: "string \<Rightarrow> Pod \<Rightarrow> Pod" where
  \<open>injected img pod =
     pod\<lparr>InitContainers :=
           map (\<lambda>i. \<lparr>Name = ''secrets-init-container-'' @ Itoa i, Image = img\<rparr>)
             [0 ..< length (secretAnnotations pod)]\<rparr>\<close>

text \<open>The message of a response, empty when it has no result.\<close>

definition responseMessage :: "AdmissionResponse \<Rightarrow> string" where
  \<open>responseMessage r = (case Result r of None \<Rightarrow> [] | Some st \<Rightarrow> Message st)\<close>

definition disallowedName :: "Container \<Rightarrow> bool" where
  \<open>disallowedName c = Contains (Name c) ''webhook-disallow''\<close>

definition containerReasons :: "Container list \<Rightarrow> string" where
  \<open>containerReasons cs =
     concat (map (\<lambda>c. if disallowedName c
                       then ''the pod contains unwanted container name; '' else []) cs)\<close>

definition labelReason :: "Pod \<Rightarrow> string" where
  \<open>labelReason pod =
     (if Labels pod ''webhook-e2e-test'' = Some ''webhook-disallow''
      then ''the pod contains unwanted label; '' else [])\<close>

section \<open>Example inputs\<close>

text \<open>A decoder that yields a given object, and requests that carry it.\<close>

definition decodeAs :: "'a \<Rightarrow> string \<Rightarrow> string + 'a" where
  \<open>decodeAs x raw = Inr x\<close>

definition podRequest :: AdmissionRequest where
  \<open>podRequest = \<lparr>Request_Name = ''web'', Request_Resource = podResource,
                   Request_SubResource = [], Request_Object_Raw = ''{}''\<rparr>\<close>

definition deploymentRequest :: AdmissionRequest where
  \<open>deploymentRequest =
     \<lparr>Request_Name = ''web'',
      Request_Resource = \<lparr>Group = ''apps'', Version = ''v1'', Resource = ''deployments''\<rparr>,
      Request_SubResource = [], Request_Object_Raw = ''{}''\<rparr>\<close>

definition attachRequest :: "string \<Rightarrow> string \<Rightarrow> AdmissionRequest" where
  \<open>attachRequest name subResource =
     \<lparr>Request_Name = name, Request_Resource = podResource,
      Request_SubResource = subResource, Request_Object_Raw = ''{}''\<rparr>\<close>

definition examplePod :: Pod where
  \<open>examplePod =
     \<lparr>Labels = Map.empty,
      Annotations = [(''secrets.k8s.aws/sidecarInjectorWebhook'', ''enabled''),
                     (''secrets.k8s.aws/secret-arn'', ''arn:aws:secretsmanager:us-east-1:1:secret:db'')],
      Containers = [\<lparr>Name = ''app'', Image = ''nginx''\<rparr>, \<lparr>Name = ''proxy'', Image = ''envoy''\<rparr>],
      InitContainers = []\<rparr>\<close>

definition plainPod :: Pod where
  \<open>plainPod =
     \<lparr>Labels = Map.empty, Annotations = [(''team'', ''payments'')],
      Containers = [\<lparr>Name = ''app'', Image = ''nginx''\<rparr>], InitContainers = []\<rparr>\<close>

definition legacyExamplePod :: Pod where
  \<open>legacyExamplePod =
     \<lparr>Labels = Map.empty,
      Annotations = [(''secrets.k8s.aws/db-password'', ''arn:aws:secretsmanager:us-east-1:1:secret:db'')],
      Containers = [\<lparr>Name = ''app'', Image = ''nginx''\<rparr>],
      InitContainers = []\<rparr>\<close>

definition exampleUnmarshal :: "string \<Rightarrow> string + (string \<times> string) list" where
  \<open>exampleUnmarshal output =
     (if output = ''{"USER":"admin","PASS":"s3cret"}''
      then Inr [(''USER'', ''admin''), (''PASS'', ''s3cret'')]
      else Inl ''invalid character'')\<close>

definition disallowedPod :: Pod where
  \<open>disallowedPod =
     \<lparr>Labels = [''webhook-e2e-test'' \<mapsto> ''webhook-disallow''], Annotations = [],
      Containers = [\<lparr>Name = ''app'', Image = ''nginx''\<rparr>,
                    \<lparr>Name = ''webhook-disallow-sidecar'', Image = ''busybox''\<rparr>],
      InitContainers = []\<rparr>\<close>

definition waitForeverPod :: Pod where
  \<open>waitForeverPod =
     \<lparr>Labels = [''webhook-e2e-test'' \<mapsto> ''wait-forever''], Annotations = [],
      Containers = [\<lparr>Name = ''webhook-disallow-sidecar'', Image = ''busybox''\<rparr>],
      InitContainers = []\<rparr>\<close>


definition quotedPod :: Pod where
  \<open>quotedPod =
     \<lparr>Labels = Map.empty,
      Annotations = [(''secrets.k8s.aws/db"password'', ''arn:aws:secretsmanager:us-east-1:1:secret:db'')],
      Containers = [\<lparr>Name = ''app'', Image = ''nginx''\<rparr>],
      InitContainers = []\<rparr>\<close>

definition uuid1 :: string where
  \<open>uuid1 = ''1b4e28ba-2fa1-41d2-883f-0016d3cca427''\<close>

definition uuid2 :: string where
  \<open>uuid2 = ''6fa459ea-ee8a-4ca4-894e-db77e160355e''\<close>

text \<open>The patch for \<^term>\<open>examplePod\<close>, the image \<^verbatim>\<open>secrets-init:1\<close> and a given UUID.\<close>

definition examplePatch :: "string \<Rightarrow> string" where
  \<open>examplePatch mountLocation =
     ''[{"op":"add","path":"/spec/initContainers","value":[''
     @ ''{"image":"secrets-init:1","name":"secrets-init-container-0",''
     @ ''"volumeMounts":[{"name":"secret-vol","mountPath":"/tmp"}],''
     @ ''"env":[{"name": "SECRET_ARN","valueFrom": {"fieldRef": {"fieldPath": ''
     @ ''"metadata.annotations['' @ [CHR 0x27] @ ''secrets.k8s.aws/secret-arn'' @ [CHR 0x27] @ '']"}}}],''
     @ ''"resources":{}}]},''
     @ ''{"op":"add","path":"/spec/volumes/-","value":{"emptyDir": {"medium": "Memory"},"name": "secret-vol"}},''
     @ ''{"op": "add","path": "/spec/containers/0/volumeMounts/-","value": {"mountPath": "/tmp/''
     @ mountLocation @ ''","name": "secret-vol"}},''
     @ ''{"op": "add","path": "/spec/containers/1/volumeMounts/-","value": {"mountPath": "/tmp/''
     @ mountLocation @ ''","name": "secret-vol"}},''
     @ ''{"op":"add","path":"/spec/containers/0/env/-","value":{"name":"SEC_LOC","value":"/tmp/''
     @ mountLocation @ ''"}},''
     @ ''{"op":"add","path":"/spec/containers/1/env/-","value":{"name":"SEC_LOC","value":"/tmp/''
     @ mountLocation @ ''"}}]''\<close>

section \<open>Syntactically valid JSON\<close>

text \<open>
  A recogniser for the JSON grammar of RFC 8259, on bytes: a pushdown automaton that
  reads the text one character at a time. The state says what may come next; the stack
  holds the objects and arrays that are open. The text is valid when the automaton ends
  after a complete value with nothing open. Bytes above 0x7F are taken as they are
  inside strings.
\<close>

datatype json_context = InObject | InArray

datatype json_state =
    BeginValue
  | BeginValueOrClose
  | BeginKey
  | BeginKeyOrClose
  | InString bool
  | InEscape bool
  | InUnicode bool nat
  | AfterKey
  | AfterValue
  | NumMinus
  | NumZero
  | NumInt
  | NumDot
  | NumFrac
  | NumE
  | NumESign
  | NumExp
  | InLiteral string
  | Invalid

definition isWhitespace :: "char \<Rightarrow> bool" where
  \<open>isWhitespace c = (c \<in> set [CHR '' '', CHR 0x09, CHR 0x0A, CHR 0x0D])\<close>

definition isDigit :: "char \<Rightarrow> bool" where
  \<open>isDigit c = (c \<in> set ''0123456789'')\<close>

definition isHex :: "char \<Rightarrow> bool" where
  \<open>isHex c = (c \<in> set ''0123456789abcdefABCDEF'')\<close>

fun isControl :: "char \<Rightarrow> bool" where
  \<open>isControl (Char b0 b1 b2 b3 b4 b5 b6 b7) = (\<not> b5 \<and> \<not> b6 \<and> \<not> b7)\<close>

type_synonym json_config = "json_state \<times> json_context list"

definition beginValue :: "char \<Rightarrow> json_context list \<Rightarrow> json_config" where
  \<open>beginValue c stack =
     (if isWhitespace c then (BeginValue, stack)
      else if c = CHR ''{'' then (BeginKeyOrClose, InObject # stack)
      else if c = CHR ''['' then (BeginValueOrClose, InArray # stack)
      else if c = CHR 0x22 then (InString False, stack)
      else if c = CHR ''-'' then (NumMinus, stack)
      else if c = CHR ''0'' then (NumZero, stack)
      else if isDigit c then (NumInt, stack)
      else if c = CHR ''t'' then (InLiteral ''rue'', stack)
      else if c = CHR ''f'' then (InLiteral ''alse'', stack)
      else if c = CHR ''n'' then (InLiteral ''ull'', stack)
      else (Invalid, stack))\<close>

definition afterValue :: "char \<Rightarrow> json_context list \<Rightarrow> json_config" where
  \<open>afterValue c stack =
     (if isWhitespace c then (AfterValue, stack)
      else case stack of
        [] \<Rightarrow> (Invalid, stack)
      | InObject # rest \<Rightarrow>
          if c = CHR '','' then (BeginKey, stack)
          else if c = CHR ''}'' then (AfterValue, rest)
          else (Invalid, stack)
      | InArray # rest \<Rightarrow>
          if c = CHR '','' then (BeginValue, stack)
          else if c = CHR '']'' then (AfterValue, rest)
          else (Invalid, stack))\<close>

fun json_step :: "char \<Rightarrow> json_config \<Rightarrow> json_config" where
  \<open>json_step c (BeginValue, stack) = beginValue c stack\<close>
| \<open>json_step c (BeginValueOrClose, stack) =
     (if c = CHR '']'' then (AfterValue, tl stack) else
      if isWhitespace c then (BeginValueOrClose, stack) else beginValue c stack)\<close>
| \<open>json_step c (BeginKey, stack) =
     (if isWhitespace c then (BeginKey, stack)
      else if c = CHR 0x22 then (InString True, stack)
      else (Invalid, stack))\<close>
| \<open>json_step c (BeginKeyOrClose, stack) =
     (if isWhitespace c then (BeginKeyOrClose, stack)
      else if c = CHR 0x22 then (InString True, stack)
      else if c = CHR ''}'' then (AfterValue, tl stack)
      else (Invalid, stack))\<close>
| \<open>json_step c (InString key, stack) =
     (if c = CHR 0x22 then (if key then AfterKey else AfterValue, stack)
      else if c = CHR 0x5C then (InEscape key, stack)
      else if isControl c then (Invalid, stack)
      else (InString key, stack))\<close>
| \<open>json_step c (InEscape key, stack) =
     (if c \<in> set [CHR 0x22, CHR 0x5C, CHR ''/'', CHR ''b'', CHR ''f'', CHR ''n'', CHR ''r'', CHR ''t'']
      then (InString key, stack)
      else if c = CHR ''u'' then (InUnicode key 4, stack)
      else (Invalid, stack))\<close>
| \<open>json_step c (InUnicode key n, stack) =
     (if isHex c then (if n \<le> 1 then InString key else InUnicode key (n - 1), stack)
      else (Invalid, stack))\<close>
| \<open>json_step c (AfterKey, stack) =
     (if isWhitespace c then (AfterKey, stack)
      else if c = CHR '':'' then (BeginValue, stack)
      else (Invalid, stack))\<close>
| \<open>json_step c (AfterValue, stack) = afterValue c stack\<close>
| \<open>json_step c (NumMinus, stack) =
     (if c = CHR ''0'' then (NumZero, stack)
      else if isDigit c then (NumInt, stack)
      else (Invalid, stack))\<close>
| \<open>json_step c (NumZero, stack) =
     (if c = CHR ''.'' then (NumDot, stack)
      else if c = CHR ''e'' \<or> c = CHR ''E'' then (NumE, stack)
      else afterValue c stack)\<close>
| \<open>json_step c (NumInt, stack) =
     (if isDigit c then (NumInt, stack)
      else if c = CHR ''.'' then (NumDot, stack)
      else if c = CHR ''e'' \<or> c = CHR ''E'' then (NumE, stack)
      else afterValue c stack)\<close>
| \<open>json_step c (NumDot, stack) =
     (if isDigit c then (NumFrac, stack) else (Invalid, stack))\<close>
| \<open>json_step c (NumFrac, stack) =
     (if isDigit c then (NumFrac, stack)
      else if c = CHR ''e'' \<or> c = CHR ''E'' then (NumE, stack)
      else afterValue c stack)\<close>
| \<open>json_step c (NumE, stack) =
     (if c = CHR ''+'' \<or> c = CHR ''-'' then (NumESign, stack)
      else if isDigit c then (NumExp, stack)
      else (Invalid, stack))\<close>
| \<open>json_step c (NumESign, stack) =
     (if isDigit c then (NumExp, stack) else (Invalid, stack))\<close>
| \<open>json_step c (NumExp, stack) =
     (if isDigit c then (NumExp, stack) else afterValue c stack)\<close>
| \<open>json_step c (InLiteral rest, stack) =
     (case rest of
        [] \<Rightarrow> (Invalid, stack)
      | x # others \<Rightarrow>
          if c = x then (if others = [] then AfterValue else InLiteral others, stack)
          else (Invalid, stack))\<close>
| \<open>json_step c (Invalid, stack) = (Invalid, stack)\<close>

definition json_run :: "string \<Rightarrow> json_config \<Rightarrow> json_config" where
  \<open>json_run s q = fold json_step s q\<close>

definition json_accepting :: "json_config \<Rightarrow> bool" where
  \<open>json_accepting q =
     (fst q \<in> set [AfterValue, NumZero, NumInt, NumFrac, NumExp] \<and> snd q = [])\<close>

definition valid_json :: "string \<Rightarrow> bool" where
  \<open>valid_json s = json_accepting (json_run s (BeginValue, []))\<close>

definition valid_json_array :: "string \<Rightarrow> bool" where
  \<open>valid_json_array s =
     (valid_json s \<and> (case dropWhile isWhitespace s of [] \<Rightarrow> False | c # rest \<Rightarrow> c = CHR ''[''))\<close>

text \<open>The patch of a response, empty when there is none.\<close>

definition patchOf :: "response \<Rightarrow> string" where
  \<open>patchOf out =
     (case out of
        Returns (Some r) \<Rightarrow> (case Patch r of Some p \<Rightarrow> p | None \<Rightarrow> [])
      | _ \<Rightarrow> [])\<close>

text \<open>The characters that a JSON string holds as they are: all but the quotation mark,
  the backslash and the control characters.\<close>

definition plainChar :: "char \<Rightarrow> bool" where
  \<open>plainChar c = (c \<noteq> CHR 0x22 \<and> c \<noteq> CHR 0x5C \<and> \<not> isControl c)\<close>

definition plainText :: "string \<Rightarrow> bool" where
  \<open>plainText s = list_all plainChar s\<close>

section \<open>Lemmas about the library functions and the loops\<close>

lemma Contains_sublist: "Contains s substr \<longleftrightarrow> sublist substr s"
  by (induction s) (auto simp: sublist_Cons_right)

lemma Itoa_0: "Itoa 0 = ''0''"
  by (simp add: Itoa.simps digit_def)

lemma Itoa_1: "Itoa (Suc 0) = ''1''"
  by (simp add: Itoa.simps digit_def)

lemma hasContainer_iff: "hasContainer cs n \<longleftrightarrow> n \<in> Name ` set cs"
  by (induction cs) auto

lemma annotationsLoop_entries:
  "annotationsLoop img anns patch n
   = patch @ initContainerEntries img n (filter secretAnnotation (map fst anns))"
  by (induction anns arbitrary: patch n) (auto simp: secretAnnotation_def)

lemma secretFoundLoop_scan:
  "secretFoundLoop anns found \<longleftrightarrow> found \<or> filter secretAnnotation (map fst anns) \<noteq> []"
  by (induction anns found rule: secretFoundLoop.induct) (simp_all add: secretAnnotation_def)

lemma shouldPatchPod_iff:
  "shouldPatchPod pod \<longleftrightarrow>
     secretAnnotations pod \<noteq> [] \<and> \<not> hasContainer (InitContainers pod) ''secrets-init-container''"
  by (simp add: shouldPatchPod_def secretFoundLoop_scan secretAnnotations_def)

lemma secretAnnotations_examplePod:
  "secretAnnotations examplePod = [''secrets.k8s.aws/secret-arn'']"
  by (simp add: secretAnnotations_def examplePod_def secretAnnotation_def)

lemma dropWhile_keeps_sublist:
  assumes "sublist sub s" and "sub \<noteq> []" and "\<not> P (hd sub)"
  shows "sublist sub (dropWhile P s)"
proof -
  from assms(1) obtain ps ss where s: "s = ps @ sub @ ss"
    by (auto simp: sublist_def)
  from assms(2,3) have stop: "dropWhile P (sub @ ss) = sub @ ss"
    by (cases sub) auto
  show ?thesis
  proof (cases "\<forall>x \<in> set ps. P x")
    case True
    then have "dropWhile P s = sub @ ss"
      using stop by (simp add: s dropWhile_append)
    then show ?thesis by simp
  next
    case False
    then have "dropWhile P s = dropWhile P ps @ sub @ ss"
      by (auto simp: s dropWhile_append)
    then show ?thesis by simp
  qed
qed

lemma TrimSpace_keeps_sublist:
  assumes "sublist sub s" and "sub \<noteq> []" and "\<not> isSpace (hd sub)" and "\<not> isSpace (last sub)"
  shows "sublist sub (TrimSpace s)"
proof -
  have a: "sublist sub (dropWhile isSpace s)"
    using assms(1-3) by (rule dropWhile_keeps_sublist)
  then have "sublist (rev sub) (rev (dropWhile isSpace s))"
    by simp
  moreover have "rev sub \<noteq> []" and "\<not> isSpace (hd (rev sub))"
    using assms(2,4) by (simp_all add: hd_rev)
  ultimately have "sublist (rev sub) (dropWhile isSpace (rev (dropWhile isSpace s)))"
    by (rule dropWhile_keeps_sublist)
  then show ?thesis
    unfolding TrimSpace_def by (simp add: sublist_rev_left)
qed

lemma fold_admitContainer:
  "fold admitContainer cs (allowed, msg)
   = (allowed \<and> (\<forall>c \<in> set cs. \<not> disallowedName c), msg @ containerReasons cs)"
  unfolding containerReasons_def
  by (induction cs arbitrary: allowed msg) (auto simp: admitContainer_def disallowedName_def)

lemma containerReasons_start:
  "\<exists>c \<in> set cs. disallowedName c \<Longrightarrow>
   \<exists>rest. containerReasons cs = ''the pod contains unwanted container name; '' @ rest"
  unfolding containerReasons_def by (induction cs) auto

lemma fold_exportLine:
  "fold (\<lambda>(k, v) written. written @ exportLine k v) uj old
   = old @ concat (map (\<lambda>(k, v). exportLine k v) uj)"
  by (induction uj arbitrary: old) auto

section \<open>Sidecar strategy without an image\<close>

text \<open>
  C8. When no sidecar image is configured, \<^verbatim>\<open>mutatePodsSidecar\<close> answers every admission
  request with allowed = false, status "Failure", code 500 and an explanatory message.
  The answer is the same for every request and every decoder, so neither the resource
  nor the raw object has any part in it.
\<close>

theorem mutatePodsSidecar_no_image:
  \<open>mutatePodsSidecar decodePod [] mountLocation ar =
     Returns (Some \<lparr>Allowed = False,
                    Result = Some \<lparr>Status = ''Failure'',
                                   Message = ''No image specified by the sidecar-image parameter'',
                                   Code = 500\<rparr>,
                    Patch = None, PatchType = None\<rparr>)\<close>
  by (simp add: mutatePodsSidecar_def emptyResponse_def)

section \<open>The deny rules of admitPods\<close>

lemma admitPods_returns:
  assumes "Request_Resource ar = podResource"
    and "decodePod (Request_Object_Raw ar) = Inr pod"
    and "Labels pod ''webhook-e2e-test'' \<noteq> Some ''wait-forever''"
  shows "admitPods decodePod ar
         = Returns (Some (emptyResponse
             \<lparr>Allowed := Labels pod ''webhook-e2e-test'' \<noteq> Some ''webhook-disallow''
                          \<and> (\<forall>c \<in> set (Containers pod). \<not> disallowedName c),
              Result :=
                (if Labels pod ''webhook-e2e-test'' \<noteq> Some ''webhook-disallow''
                    \<and> (\<forall>c \<in> set (Containers pod). \<not> disallowedName c)
                 then None
                 else Some (emptyStatus
                        \<lparr>Message := TrimSpace (labelReason pod @ containerReasons (Containers pod))\<rparr>))\<rparr>))"
proof (cases "Labels pod ''webhook-e2e-test''")
  case None
  with assms show ?thesis
    by (simp add: admitPods_def admitLabel_def fold_admitContainer labelReason_def)
next
  case (Some v)
  with assms have "v \<noteq> ''wait-forever''" by simp
  with Some assms show ?thesis
    by (simp add: admitPods_def admitLabel_def fold_admitContainer labelReason_def)
qed

lemma label_in_message:
  assumes "Labels pod ''webhook-e2e-test'' = Some ''webhook-disallow''"
  shows "Contains (TrimSpace (labelReason pod @ containerReasons cs)) ''unwanted label''"
proof -
  have "sublist ''unwanted label'' (''the pod contains '' @ ''unwanted label'' @ (''; '' @ containerReasons cs))"
    by (rule sublist_appendI)
  then have "sublist ''unwanted label'' (labelReason pod @ containerReasons cs)"
    using assms by (simp add: labelReason_def)
  then have "sublist ''unwanted label'' (TrimSpace (labelReason pod @ containerReasons cs))"
    by (rule TrimSpace_keeps_sublist) (simp_all add: isSpace_def)
  then show ?thesis by (simp add: Contains_sublist)
qed

lemma container_in_message:
  assumes "\<exists>c \<in> set cs. disallowedName c"
  shows "Contains (TrimSpace (labelReason pod @ containerReasons cs)) ''unwanted container name''"
proof -
  from assms obtain rest where
    r: "containerReasons cs = ''the pod contains unwanted container name; '' @ rest"
    using containerReasons_start by blast
  have "sublist ''unwanted container name''
          ((labelReason pod @ ''the pod contains '') @ ''unwanted container name'' @ (''; '' @ rest))"
    by (rule sublist_appendI)
  then have "sublist ''unwanted container name'' (labelReason pod @ containerReasons cs)"
    by (simp add: r)
  then have "sublist ''unwanted container name'' (TrimSpace (labelReason pod @ containerReasons cs))"
    by (rule TrimSpace_keeps_sublist) (simp_all add: isSpace_def)
  then show ?thesis by (simp add: Contains_sublist)
qed

lemma both_in_message:
  assumes "Labels pod ''webhook-e2e-test'' = Some ''webhook-disallow''"
    and "\<exists>c \<in> set cs. disallowedName c"
  shows "Contains (TrimSpace (labelReason pod @ containerReasons cs))
           ''the pod contains unwanted label; the pod contains unwanted container name;''"
proof -
  from assms(2) obtain rest where
    r: "containerReasons cs = ''the pod contains unwanted container name; '' @ rest"
    using containerReasons_start by blast
  have "sublist ''the pod contains unwanted label; the pod contains unwanted container name;''
          ([] @ ''the pod contains unwanted label; the pod contains unwanted container name;''
             @ ('' '' @ rest))"
    by (rule sublist_appendI)
  then have "sublist ''the pod contains unwanted label; the pod contains unwanted container name;''
               (labelReason pod @ containerReasons cs)"
    using assms(1) by (simp add: r labelReason_def)
  then have "sublist ''the pod contains unwanted label; the pod contains unwanted container name;''
               (TrimSpace (labelReason pod @ containerReasons cs))"
    by (rule TrimSpace_keeps_sublist) (simp_all add: isSpace_def)
  then show ?thesis by (simp add: Contains_sublist)
qed

lemma admitPods_blocks:
  assumes "Request_Resource ar = podResource"
    and "decodePod (Request_Object_Raw ar) = Inr pod"
    and "Labels pod ''webhook-e2e-test'' = Some ''wait-forever''"
  shows "admitPods decodePod ar = Blocks"
  using assms by (simp add: admitPods_def admitLabel_def)

text \<open>
  C6. On a request for the pods resource whose object decodes to a pod: when the pod is
  labelled \<^verbatim>\<open>webhook-e2e-test=wait-forever\<close>, \<^verbatim>\<open>admitPods\<close> blocks and returns nothing;
  otherwise it returns a response. With the label \<^verbatim>\<open>webhook-e2e-test=webhook-disallow\<close>
  the pod is denied and the message contains "unwanted label"; with a container whose
  name contains \<^verbatim>\<open>webhook-disallow\<close> the pod is denied and the message contains
  "unwanted container name"; with both, the message holds the two reasons one after the
  other; with neither, the pod is allowed and the response has no result.
\<close>

theorem admitPods_decisions:
  assumes "Request_Resource ar = podResource"
    and "decodePod (Request_Object_Raw ar) = Inr pod"
  shows "(Labels pod ''webhook-e2e-test'' = Some ''wait-forever''
           \<longrightarrow> admitPods decodePod ar = Blocks)
      \<and> (Labels pod ''webhook-e2e-test'' \<noteq> Some ''wait-forever''
           \<longrightarrow> (\<exists>r. admitPods decodePod ar = Returns (Some r)
      \<and> (Labels pod ''webhook-e2e-test'' = Some ''webhook-disallow''
           \<longrightarrow> \<not> Allowed r \<and> Contains (responseMessage r) ''unwanted label'')
      \<and> ((\<exists>c \<in> set (Containers pod). Contains (Name c) ''webhook-disallow'')
           \<longrightarrow> \<not> Allowed r \<and> Contains (responseMessage r) ''unwanted container name'')
      \<and> (Labels pod ''webhook-e2e-test'' = Some ''webhook-disallow''
           \<and> (\<exists>c \<in> set (Containers pod). Contains (Name c) ''webhook-disallow'')
           \<longrightarrow> Contains (responseMessage r)
                 ''the pod contains unwanted label; the pod contains unwanted container name;'')
      \<and> (Labels pod ''webhook-e2e-test'' \<noteq> Some ''webhook-disallow''
           \<and> (\<forall>c \<in> set (Containers pod). \<not> Contains (Name c) ''webhook-disallow'')
           \<longrightarrow> Allowed r \<and> Result r = None)))"
proof (intro conjI impI)
  assume "Labels pod ''webhook-e2e-test'' = Some ''wait-forever''"
  with assms show "admitPods decodePod ar = Blocks"
    by (rule admitPods_blocks)
next
  assume nw: "Labels pod ''webhook-e2e-test'' \<noteq> Some ''wait-forever''"
  show "\<exists>r. admitPods decodePod ar = Returns (Some r)
      \<and> (Labels pod ''webhook-e2e-test'' = Some ''webhook-disallow''
           \<longrightarrow> \<not> Allowed r \<and> Contains (responseMessage r) ''unwanted label'')
      \<and> ((\<exists>c \<in> set (Containers pod). Contains (Name c) ''webhook-disallow'')
           \<longrightarrow> \<not> Allowed r \<and> Contains (responseMessage r) ''unwanted container name'')
      \<and> (Labels pod ''webhook-e2e-test'' = Some ''webhook-disallow''
           \<and> (\<exists>c \<in> set (Containers pod). Contains (Name c) ''webhook-disallow'')
           \<longrightarrow> Contains (responseMessage r)
                 ''the pod contains unwanted label; the pod contains unwanted container name;'')
      \<and> (Labels pod ''webhook-e2e-test'' \<noteq> Some ''webhook-disallow''
           \<and> (\<forall>c \<in> set (Containers pod). \<not> Contains (Name c) ''webhook-disallow'')
           \<longrightarrow> Allowed r \<and> Result r = None)"
    using admitPods_returns [of ar decodePod pod] assms nw
      label_in_message [of pod "Containers pod"]
      container_in_message [of "Containers pod" pod] both_in_message [of pod "Containers pod"]
    by (auto simp: responseMessage_def emptyResponse_def emptyStatus_def disallowedName_def)
qed

theorem admitPods_decisions_witness:
  "Request_Resource podRequest = podResource
   \<and> decodeAs disallowedPod (Request_Object_Raw podRequest) = Inr disallowedPod
   \<and> Labels disallowedPod ''webhook-e2e-test'' = Some ''webhook-disallow''
   \<and> (\<exists>r. admitPods (decodeAs disallowedPod) podRequest = Returns (Some r)
          \<and> \<not> Allowed r
          \<and> Contains (responseMessage r) ''unwanted label''
          \<and> Contains (responseMessage r) ''unwanted container name''
          \<and> Contains (responseMessage r)
               ''the pod contains unwanted label; the pod contains unwanted container name;'')
   \<and> (\<exists>r. admitPods (decodeAs plainPod) podRequest = Returns (Some r)
          \<and> Allowed r \<and> Result r = None)
   \<and> Labels waitForeverPod ''webhook-e2e-test'' = Some ''wait-forever''
   \<and> admitPods (decodeAs waitForeverPod) podRequest = Blocks"
proof -
  have d: "Contains ''webhook-disallow-sidecar'' ''webhook-disallow''"
    by simp
  have p: "\<not> Contains ''app'' ''webhook-disallow''"
    by simp
  show ?thesis
    using admitPods_decisions [of podRequest "decodeAs disallowedPod" disallowedPod]
      admitPods_decisions [of podRequest "decodeAs plainPod" plainPod]
      admitPods_decisions [of podRequest "decodeAs waitForeverPod" waitForeverPod] d p
    by (auto simp: podRequest_def decodeAs_def disallowedPod_def plainPod_def waitForeverPod_def)
qed

text \<open>
  The claim as it is written has a response for every pod with a container whose name
  contains \<^verbatim>\<open>webhook-disallow\<close>, and for every pod with neither violation. A pod labelled
  \<^verbatim>\<open>wait-forever\<close>, here one with a container named \<^verbatim>\<open>webhook-disallow-sidecar\<close>, gets
  none: the call blocks on the channel.
\<close>

theorem admitPods_wait_forever_counterexample:
  "Contains (Name (hd (Containers waitForeverPod))) ''webhook-disallow''
   \<and> admitPods (decodeAs waitForeverPod) podRequest = Blocks"
  by (simp add: admitPods_def admitLabel_def decodeAs_def podRequest_def waitForeverPod_def)

section \<open>The attach rule\<close>

text \<open>
  C7. On a request for the pods resource whose object decodes to attach options,
  \<^verbatim>\<open>denySpecificAttachment\<close> returns a response, and the response has allowed = false
  exactly when the request name is \<^verbatim>\<open>to-be-attached-pod\<close> and either the sub-resource
  is not \<^verbatim>\<open>attach\<close>, or the options have stdin = true and container =
  \<^verbatim>\<open>container1\<close>. In the first of the two cases the response is the error response for
  the sub-resource. In every other case the response has allowed = true.
\<close>

theorem denySpecificAttachment_decisions:
  assumes "Request_Resource ar = podResource"
    and "decodeOptions (Request_Object_Raw ar) = Inr opts"
  shows "\<exists>r. denySpecificAttachment decodeOptions ar = Returns (Some r)
      \<and> (Allowed r = False \<longleftrightarrow>
           Request_Name ar = ''to-be-attached-pod''
           \<and> (Request_SubResource ar \<noteq> ''attach''
              \<or> (Stdin opts \<and> Container opts = ''container1'')))
      \<and> (Request_Name ar = ''to-be-attached-pod'' \<and> Request_SubResource ar \<noteq> ''attach''
           \<longrightarrow> r = toV1AdmissionResponse
                      (''expect subresource to be attach, got '' @ Request_SubResource ar))"
  using assms
  by (auto simp: denySpecificAttachment_def toV1AdmissionResponse_def emptyResponse_def)

theorem denySpecificAttachment_decisions_witness:
  \<open>(\<exists>r. denySpecificAttachment (decodeAs \<lparr>Stdin = True, Container = ''container1''\<rparr>)
          (attachRequest ''to-be-attached-pod'' ''attach'') = Returns (Some r) \<and> Allowed r = False)
   \<and> (\<exists>r. denySpecificAttachment (decodeAs \<lparr>Stdin = False, Container = ''container1''\<rparr>)
          (attachRequest ''to-be-attached-pod'' ''attach'') = Returns (Some r) \<and> Allowed r = True)
   \<and> (\<exists>r. denySpecificAttachment (decodeAs \<lparr>Stdin = True, Container = ''container2''\<rparr>)
          (attachRequest ''to-be-attached-pod'' ''attach'') = Returns (Some r) \<and> Allowed r = True)
   \<and> (\<exists>r. denySpecificAttachment (decodeAs \<lparr>Stdin = True, Container = ''container1''\<rparr>)
          (attachRequest ''other-pod'' ''attach'') = Returns (Some r) \<and> Allowed r = True)
   \<and> (\<exists>r. denySpecificAttachment (decodeAs \<lparr>Stdin = True, Container = ''container1''\<rparr>)
          (attachRequest ''to-be-attached-pod'' ''exec'') = Returns (Some r) \<and> Allowed r = False
          \<and> r = toV1AdmissionResponse ''expect subresource to be attach, got exec'')\<close>
  using
    denySpecificAttachment_decisions [of "attachRequest ''to-be-attached-pod'' ''attach''"
      "decodeAs \<lparr>Stdin = True, Container = ''container1''\<rparr>"
      "\<lparr>Stdin = True, Container = ''container1''\<rparr>"]
    denySpecificAttachment_decisions [of "attachRequest ''to-be-attached-pod'' ''attach''"
      "decodeAs \<lparr>Stdin = False, Container = ''container1''\<rparr>"
      "\<lparr>Stdin = False, Container = ''container1''\<rparr>"]
    denySpecificAttachment_decisions [of "attachRequest ''to-be-attached-pod'' ''attach''"
      "decodeAs \<lparr>Stdin = True, Container = ''container2''\<rparr>"
      "\<lparr>Stdin = True, Container = ''container2''\<rparr>"]
    denySpecificAttachment_decisions [of "attachRequest ''other-pod'' ''attach''"
      "decodeAs \<lparr>Stdin = True, Container = ''container1''\<rparr>"
      "\<lparr>Stdin = True, Container = ''container1''\<rparr>"]
    denySpecificAttachment_decisions [of "attachRequest ''to-be-attached-pod'' ''exec''"
      "decodeAs \<lparr>Stdin = True, Container = ''container1''\<rparr>"
      "\<lparr>Stdin = True, Container = ''container1''\<rparr>"]
  by (simp add: attachRequest_def decodeAs_def)

text \<open>
  The claim as it is written has allowed = true whenever one of the four fields differs.
  With the name, stdin and the container as in the denied combination and the
  sub-resource \<^verbatim>\<open>exec\<close>, the function returns the error response, whose allowed flag is
  false.
\<close>

theorem denySpecificAttachment_exec_counterexample:
  \<open>denySpecificAttachment (decodeAs \<lparr>Stdin = True, Container = ''container1''\<rparr>)
      (attachRequest ''to-be-attached-pod'' ''exec'')
   = Returns (Some \<lparr>Allowed = False,
                    Result = Some \<lparr>Status = [],
                                   Message = ''expect subresource to be attach, got exec'',
                                   Code = 0\<rparr>,
                    Patch = None, PatchType = None\<rparr>)\<close>
  by (simp add: denySpecificAttachment_def attachRequest_def toV1AdmissionResponse_def
      emptyResponse_def emptyStatus_def)

section \<open>The output writer of the secret-fetch program\<close>

text \<open>
  C9. When the input unmarshals into a map of strings and the output file can be
  opened, \<^verbatim>\<open>writeOutput\<close> appends one line \<^verbatim>\<open>export KEY=VALUE;\<close> for each pair of the
  map to the file, which it creates when it is missing. When the input unmarshals and
  the file cannot be opened, and when the input does not unmarshal, the file is left as
  it was.
\<close>

theorem writeOutput_lines:
  "(Unmarshal output = Inr uj \<and> Openable f \<longrightarrow>
      writeOutput Unmarshal output f
      = f\<lparr>Contents := Some ((case Contents f of None \<Rightarrow> [] | Some old \<Rightarrow> old)
                               @ concat (map (\<lambda>(k, v). exportLine k v) uj))\<rparr>)
   \<and> (Unmarshal output = Inr uj \<and> \<not> Openable f \<longrightarrow> writeOutput Unmarshal output f = f)
   \<and> (Unmarshal output = Inl err \<longrightarrow> writeOutput Unmarshal output f = f)"
  by (simp add: writeOutput_def fold_exportLine)

theorem writeOutput_lines_witness:
  \<open>writeOutput exampleUnmarshal ''{"USER":"admin","PASS":"s3cret"}''
        \<lparr>Openable = True, Contents = Some (''export A=1;'' @ [CHR 0x0A])\<rparr>
     = \<lparr>Openable = True,
        Contents = Some (''export A=1;'' @ [CHR 0x0A] @ ''export USER=admin;'' @ [CHR 0x0A]
                         @ ''export PASS=s3cret;'' @ [CHR 0x0A])\<rparr>
   \<and> writeOutput exampleUnmarshal ''{"USER":"admin","PASS":"s3cret"}''
        \<lparr>Openable = False, Contents = None\<rparr>
     = \<lparr>Openable = False, Contents = None\<rparr>
   \<and> writeOutput exampleUnmarshal ''hunter2'' \<lparr>Openable = True, Contents = None\<rparr>
     = \<lparr>Openable = True, Contents = None\<rparr>\<close>
  using
    writeOutput_lines [of exampleUnmarshal \<open>''{"USER":"admin","PASS":"s3cret"}''\<close>
      "[(''USER'', ''admin''), (''PASS'', ''s3cret'')]"
      "\<lparr>Openable = True, Contents = Some (''export A=1;'' @ [CHR 0x0A])\<rparr>" "''x''"]
    writeOutput_lines [of exampleUnmarshal \<open>''{"USER":"admin","PASS":"s3cret"}''\<close>
      "[(''USER'', ''admin''), (''PASS'', ''s3cret'')]"
      "\<lparr>Openable = False, Contents = None\<rparr>" "''x''"]
    writeOutput_lines [of exampleUnmarshal "''hunter2''" "[]"
      "\<lparr>Openable = True, Contents = None\<rparr>" "''invalid character''"]
  by (simp add: exampleUnmarshal_def exportLine_def)

text \<open>
  The claim as it is written has the lines written whenever the input parses. With an
  input that unmarshals into two pairs and a file that cannot be opened, nothing is
  written.
\<close>

theorem writeOutput_unopenable_counterexample:
  \<open>exampleUnmarshal ''{"USER":"admin","PASS":"s3cret"}''
     = Inr [(''USER'', ''admin''), (''PASS'', ''s3cret'')]
   \<and> writeOutput exampleUnmarshal ''{"USER":"admin","PASS":"s3cret"}''
        \<lparr>Openable = False, Contents = Some ''export A=1;''\<rparr>
     = \<lparr>Openable = False, Contents = Some ''export A=1;''\<rparr>\<close>
  by (simp add: writeOutput_def exampleUnmarshal_def)

section \<open>The legacy mutatePods and the key secret-arn\<close>

lemma legacy_shouldPatchPod_with_key:
  "legacy_shouldPatchPod ''img''
     (legacyExamplePod\<lparr>Annotations := [(''secrets.k8s.aws/secret-arn'', ''arn'')]\<rparr>)"
  by (simp add: legacy_shouldPatchPod_def legacyExamplePod_def)

text \<open>
  C10. In the legacy variant, on a request for the pods resource whose object decodes to
  a pod that has no annotation with the key \<^verbatim>\<open>secrets.k8s.aws/secret-arn\<close>, whatever
  other annotations it carries, \<^verbatim>\<open>shouldPatchPod\<close> is false and \<^verbatim>\<open>mutatePods\<close> returns
  allowed = true with no patch.
\<close>

theorem legacy_mutatePods_needs_secret_arn:
  assumes "Request_Resource ar = podResource"
    and "decodePod (Request_Object_Raw ar) = Inr pod"
    and "''secrets.k8s.aws/secret-arn'' \<notin> fst ` set (Annotations pod)"
  shows "legacy_shouldPatchPod sidecarImage pod = False
       \<and> legacy_mutatePods decodePod sidecarImage ar
           = Returns (Some \<lparr>Allowed = True, Result = None, Patch = None, PatchType = None\<rparr>)"
proof -
  from assms(3) have "map_of (Annotations pod) ''secrets.k8s.aws/secret-arn'' = None"
    by (simp add: map_of_eq_None_iff)
  then have no: "legacy_shouldPatchPod sidecarImage pod = False"
    by (simp add: legacy_shouldPatchPod_def Let_def)
  with assms(1,2) show ?thesis
    by (simp add: legacy_mutatePods_def legacy_applyPodPatch_def emptyResponse_def)
qed

theorem legacy_mutatePods_needs_secret_arn_witness:
  "Request_Resource podRequest = podResource
   \<and> decodeAs legacyExamplePod (Request_Object_Raw podRequest) = Inr legacyExamplePod
   \<and> ''secrets.k8s.aws/secret-arn'' \<notin> fst ` set (Annotations legacyExamplePod)
   \<and> secretAnnotations legacyExamplePod = [''secrets.k8s.aws/db-password'']
   \<and> legacy_shouldPatchPod ''img'' legacyExamplePod = False
   \<and> legacy_mutatePods (decodeAs legacyExamplePod) ''img'' podRequest
       = Returns (Some \<lparr>Allowed = True, Result = None, Patch = None, PatchType = None\<rparr>)"
  using legacy_mutatePods_needs_secret_arn
    [of podRequest "decodeAs legacyExamplePod" legacyExamplePod "''img''"]
  by (simp add: podRequest_def decodeAs_def legacyExamplePod_def secretAnnotations_def
      secretAnnotation_def)

section \<open>The patch as JSON\<close>

lemmas json_chars = beginValue_def afterValue_def isWhitespace_def isDigit_def isHex_def

lemma json_run_append: "json_run (a @ b) q = json_run b (json_run a q)"
  by (simp add: json_run_def)

lemma json_run_Cons: "json_run (c # s) q = json_run s (json_step c q)"
  by (simp add: json_run_def)

lemma json_run_Nil: "json_run [] q = q"
  by (simp add: json_run_def)

lemma json_run_plain:
  "plainText s \<Longrightarrow> json_run s (InString key, stack) = (InString key, stack)"
  by (induction s) (simp_all add: json_run_Nil json_run_Cons plainText_def plainChar_def)

lemma json_run_Invalid: "json_run s (Invalid, stack) = (Invalid, stack)"
  by (induction s) (simp_all add: json_run_Nil json_run_Cons)

text \<open>The recogniser on some texts.\<close>

lemmas json_eval = valid_json_def valid_json_array_def json_run_Cons json_run_Nil json_run_Invalid
  json_accepting_def json_chars

lemma valid_json_examples:
  \<open>valid_json ''{"a": [1, -2.5e-3, true, false, null, "x"], "b": {}, "c": [[], [ ]]}''\<close>
  \<open>valid_json (''["'' @ [CHR 0x5C] @ ''u00e9 '' @ [CHR 0x5C] @ ''" '' @ [CHR 0x5C] @ ''n"]'')\<close>
  \<open>valid_json '' -0.5E+10 ''\<close>
  \<open>valid_json ''[1 , 2]''\<close>
  \<open>valid_json_array (''[ {"op":"add"} ,'' @ [CHR 0x0A] @ '' [] ] '')\<close>
  \<open>valid_json_array (podsSidecarPatch ''img:1'')\<close>
  by (simp_all add: json_eval podsSidecarPatch_def)

lemma invalid_json_examples:
  \<open>\<not> valid_json ''''\<close>
  \<open>\<not> valid_json ''[1,]''\<close>
  \<open>\<not> valid_json ''[1,,2]''\<close>
  \<open>\<not> valid_json ''[,1]''\<close>
  \<open>\<not> valid_json ''[1''\<close>
  \<open>\<not> valid_json ''[1]]''\<close>
  \<open>\<not> valid_json ''{"a" 1}''\<close>
  \<open>\<not> valid_json ''{"a":1,}''\<close>
  \<open>\<not> valid_json ''{"a":}''\<close>
  \<open>\<not> valid_json ''{a:1}''\<close>
  \<open>\<not> valid_json ''{,}''\<close>
  \<open>\<not> valid_json ''[01]''\<close>
  \<open>\<not> valid_json ''[1.]''\<close>
  \<open>\<not> valid_json ''[.5]''\<close>
  \<open>\<not> valid_json ''[1e]''\<close>
  \<open>\<not> valid_json ''-''\<close>
  \<open>\<not> valid_json ''1 2''\<close>
  \<open>\<not> valid_json ''["a"b"]''\<close>
  \<open>\<not> valid_json ''["abc]''\<close>
  \<open>\<not> valid_json (''["'' @ [CHR 0x5C] @ ''x"]'')\<close>
  \<open>\<not> valid_json (''["'' @ [CHR 0x5C] @ ''u12G4"]'')\<close>
  \<open>\<not> valid_json (''["a'' @ [CHR 0x0A] @ ''"]'')\<close>
  \<open>\<not> valid_json ''[tru]''\<close>
  \<open>\<not> valid_json ''[nul l]''\<close>
  \<open>\<not> valid_json ''{]''\<close>
  \<open>\<not> valid_json ''[}''\<close>
  \<open>\<not> valid_json_array ''{"a":1}''\<close>
  \<open>\<not> valid_json_array ''"[]"''\<close>
  by (simp_all add: json_eval)

lemma digit_plain: "d < 10 \<Longrightarrow> plainChar (digit d)"
proof -
  assume "d < 10"
  then have "d \<in> {0, 1, 2, 3, 4, 5, 6, 7, 8, 9}" by auto
  then show ?thesis
    by (auto simp: digit_def plainChar_def)
qed

lemma Itoa_plain: "plainText (Itoa n)"
proof (induction n rule: Itoa.induct)
  case (1 n)
  show ?case
  proof (cases "n < 10")
    case True
    then show ?thesis
      by (subst Itoa.simps) (simp add: plainText_def digit_plain)
  next
    case False
    then have "plainText (Itoa (n div 10))" using 1 by simp
    moreover have "plainChar (digit (n mod 10))" by (simp add: digit_plain)
    ultimately show ?thesis
      using False by (subst Itoa.simps) (simp add: plainText_def)
  qed
qed


lemmas json_run_simps = json_run_append json_run_Cons json_run_Nil json_run_plain Itoa_plain
  json_chars

lemma json_run_entry:
  assumes "plainText img" and "plainText k"
  shows "json_run (butlast (initContainerEntry img n k)) (BeginValue, stack) = (AfterValue, stack)"
    and "json_run (butlast (initContainerEntry img n k)) (BeginValueOrClose, stack) = (AfterValue, stack)"
  using assms
  by (simp_all add: initContainerEntry_def butlast_append json_run_simps)

lemma initContainerEntry_comma:
  "initContainerEntry img n k = butlast (initContainerEntry img n k) @ '',''"
  by (simp add: initContainerEntry_def butlast_append)

lemma json_run_volumeMountPatch:
  "plainText ml \<Longrightarrow> json_run (volumeMountPatch ml i) (BeginValue, stack) = (AfterValue, stack)"
  by (simp add: volumeMountPatch_def json_run_simps)

lemma json_run_envPatch:
  "plainText ml \<Longrightarrow> json_run (envPatch i ml) (BeginValue, stack) = (AfterValue, stack)"
  by (simp add: envPatch_def json_run_simps)

lemma json_run_secretsMountPointPatch:
  "json_run secretsMountPointPatch (BeginValue, stack) = (AfterValue, stack)"
  by (simp add: secretsMountPointPatch_def json_run_simps)


lemma initContainerEntries_nonempty: "ks \<noteq> [] \<Longrightarrow> initContainerEntries img n ks \<noteq> []"
  by (cases ks) (simp_all add: initContainerEntry_def)

lemma json_run_entries:
  assumes "plainText img" and "list_all plainText ks" and "ks \<noteq> []"
  shows "json_run (butlast (initContainerEntries img n ks)) (BeginValue, InArray # stack)
           = (AfterValue, InArray # stack)
       \<and> json_run (butlast (initContainerEntries img n ks)) (BeginValueOrClose, InArray # stack)
           = (AfterValue, InArray # stack)"
  using assms(2,3)
proof (induction ks arbitrary: n)
  case Nil
  then show ?case by simp
next
  case (Cons k ks)
  then have k: "plainText k" and ks: "list_all plainText ks" by simp_all
  show ?case
  proof (cases "ks = []")
    case True
    then show ?thesis
      using json_run_entry [OF assms(1) k] by simp
  next
    case False
    then have ne: "initContainerEntries img (Suc n) ks \<noteq> []"
      by (rule initContainerEntries_nonempty)
    have split: "butlast (initContainerEntries img n (k # ks))
       = butlast (initContainerEntry img n k) @ '','' @ butlast (initContainerEntries img (Suc n) ks)"
      using ne initContainerEntry_comma [of img n k] by (simp add: butlast_append)
    have rest: "json_run (butlast (initContainerEntries img (Suc n) ks)) (BeginValue, InArray # stack)
           = (AfterValue, InArray # stack)"
      using Cons.IH [OF ks False] by simp
    show ?thesis
      unfolding split
      by (simp add: json_run_append json_run_entry [OF assms(1) k] json_run_Cons json_run_Nil
          json_chars rest)
  qed
qed

lemma fold_containerStep_Suc:
  "fold (containerStep ml) [0 ..< Suc (Suc m)] ([], [])
   = (fst (fold (containerStep ml) [0 ..< Suc m] ([], [])) @ '','' @ volumeMountPatch ml (Suc m),
      snd (fold (containerStep ml) [0 ..< Suc m] ([], [])) @ '','' @ envPatch (Suc m) ml)"
  by (simp add: containerStep_def)

lemma json_run_containers:
  assumes "plainText ml"
  shows "json_run (fst (fold (containerStep ml) [0 ..< Suc m] ([], []))) (BeginValue, InArray # stack)
           = (AfterValue, InArray # stack)
       \<and> json_run (snd (fold (containerStep ml) [0 ..< Suc m] ([], []))) (BeginValue, InArray # stack)
           = (AfterValue, InArray # stack)"
proof (induction m)
  case 0
  show ?case
    using assms by (simp add: containerStep_def json_run_volumeMountPatch json_run_envPatch)
next
  case (Suc m)
  then show ?case
    using assms
    by (simp only: fold_containerStep_Suc fst_conv snd_conv json_run_append)
       (simp add: json_run_Cons json_run_Nil json_chars json_run_volumeMountPatch
          json_run_envPatch)
qed

lemma processAnnotations_entries:
  assumes "secretAnnotations pod \<noteq> []"
  shows "processAnnotations img pod
         = Returns (''['' @ initContainersShell
                      (butlast (initContainerEntries img 0 (secretAnnotations pod)))
                    @ secretsMountPointPatch)"
  using assms initContainerEntries_nonempty [of "secretAnnotations pod" img 0]
  by (simp add: processAnnotations_def annotationsLoop_entries secretAnnotations_def)

lemma json_run_tail:
  assumes "json_run V (BeginValue, [InArray]) = (AfterValue, [InArray])"
    and "json_run E (BeginValue, [InArray]) = (AfterValue, [InArray])"
  shows "json_run ('','' @ V @ '','' @ E @ '']'') (AfterValue, [InArray]) = (AfterValue, [])"
  using assms by (simp add: json_run_append json_run_Cons json_run_Nil json_chars)

lemma json_run_head:
  assumes "json_run B (BeginValueOrClose, InArray # InObject # [InArray])
           = (AfterValue, InArray # InObject # [InArray])"
  shows "json_run (''['' @ initContainersShell B @ secretsMountPointPatch) (BeginValue, [])
         = (AfterValue, [InArray])"
proof -
  have "json_run (''['' @ initContainersShell B) (BeginValue, []) = (BeginValue, [InArray])"
    using assms
    by (simp add: initContainersShell_def json_run_append json_run_Cons json_run_Nil json_chars)
  then have "json_run ((''['' @ initContainersShell B) @ secretsMountPointPatch) (BeginValue, [])
             = (AfterValue, [InArray])"
    by (simp only: json_run_append json_run_secretsMountPointPatch)
  then show ?thesis by simp
qed

lemma json_run_patch:
  assumes "plainText img" and "list_all plainText ks" and "ks \<noteq> []" and "plainText ml"
  shows "json_run
           ((''['' @ initContainersShell (butlast (initContainerEntries img 0 ks))
               @ secretsMountPointPatch)
            @ '','' @ fst (fold (containerStep ml) [0 ..< Suc m] ([], []))
            @ '','' @ snd (fold (containerStep ml) [0 ..< Suc m] ([], [])) @ '']'')
           (BeginValue, [])
         = (AfterValue, [])"
proof -
  have "json_run (butlast (initContainerEntries img 0 ks))
          (BeginValueOrClose, InArray # InObject # [InArray])
        = (AfterValue, InArray # InObject # [InArray])"
    using json_run_entries [OF assms(1-3)] by simp
  then have head: "json_run (''['' @ initContainersShell (butlast (initContainerEntries img 0 ks))
                     @ secretsMountPointPatch) (BeginValue, [])
                   = (AfterValue, [InArray])"
    by (rule json_run_head)
  have tail: "json_run ('','' @ fst (fold (containerStep ml) [0 ..< Suc m] ([], []))
                 @ '','' @ snd (fold (containerStep ml) [0 ..< Suc m] ([], [])) @ '']'')
                (AfterValue, [InArray])
              = (AfterValue, [])"
    using json_run_containers [OF assms(4), of m "[]"] by (intro json_run_tail) simp_all
  show ?thesis
    by (subst json_run_append) (simp only: head tail)
qed

text \<open>
  Where the scanned keys, the image and the text of the UUID hold none of the characters
  that JSON escapes (quotation mark, backslash, control characters), the patch is sound:
  on a request for the pods resource whose object decodes to a pod with at least one
  scanned key and at least one container, \<^verbatim>\<open>mutatePods\<close> returns a response; the response
  has no patch exactly when the pod has an init container named
  \<^verbatim>\<open>secrets-init-container\<close> already; and a patch that it has is a syntactically valid
  JSON array.
\<close>

lemma mutatePods_patch_valid_json:
  assumes "Request_Resource ar = podResource"
    and "decodePod (Request_Object_Raw ar) = Inr pod"
    and "secretAnnotations pod \<noteq> []"
    and "Containers pod \<noteq> []"
    and "list_all plainText (secretAnnotations pod)"
    and "plainText sidecarImage"
    and "plainText mountLocation"
  shows "\<exists>r. mutatePods decodePod sidecarImage mountLocation ar = Returns (Some r)
         \<and> (Patch r = None \<longleftrightarrow> hasContainer (InitContainers pod) ''secrets-init-container'')
         \<and> (\<forall>patch. Patch r = Some patch \<longrightarrow> valid_json_array patch)"
proof (cases "hasContainer (InitContainers pod) ''secrets-init-container''")
  case True
  then have "\<not> shouldPatchPod pod"
    by (simp add: shouldPatchPod_iff)
  then show ?thesis
    using assms(1,2) True by (simp add: mutatePods_def applyPodPatch_def emptyResponse_def)
next
  case False
  from assms(4) obtain m where m: "length (Containers pod) = Suc m"
    by (cases "Containers pod") auto
  let ?V = "fst (fold (containerStep mountLocation) [0 ..< Suc m] ([], []))"
  let ?E = "snd (fold (containerStep mountLocation) [0 ..< Suc m] ([], []))"
  let ?head = "''['' @ initContainersShell
                 (butlast (initContainerEntries sidecarImage 0 (secretAnnotations pod)))
               @ secretsMountPointPatch"
  let ?patch = "?head @ '','' @ ?V @ '','' @ ?E @ '']''"
  have should: "shouldPatchPod pod"
    using assms(3) False by (simp add: shouldPatchPod_iff)
  have result: "mutatePods decodePod sidecarImage mountLocation ar
      = Returns (Some \<lparr>Allowed = True, Result = None, Patch = Some ?patch,
                       PatchType = Some PatchTypeJSONPatch\<rparr>)"
    using assms(1,2) should m
    by (simp add: mutatePods_def applyPodPatch_def processAnnotations_entries [OF assms(3)]
        emptyResponse_def case_prod_beta del: upt_Suc)
  have "json_run ?patch (BeginValue, []) = (AfterValue, [])"
    using assms(6,5,3,7) by (rule json_run_patch)
  then have "valid_json ?patch"
    by (simp add: valid_json_def json_accepting_def)
  moreover have "(case dropWhile isWhitespace ?patch of [] \<Rightarrow> False | c # rest \<Rightarrow> c = CHR ''['')"
    by (simp add: isWhitespace_def)
  ultimately have "valid_json_array ?patch"
    by (simp only: valid_json_array_def simp_thms)
  with result False show ?thesis by simp
qed

lemma mutatePods_patch_valid_json_example:
  "Request_Resource podRequest = podResource
   \<and> decodeAs examplePod (Request_Object_Raw podRequest) = Inr examplePod
   \<and> secretAnnotations examplePod = [''secrets.k8s.aws/secret-arn'']
   \<and> Containers examplePod \<noteq> []
   \<and> plainText ''secrets.k8s.aws/secret-arn'' \<and> plainText ''secrets-init:1'' \<and> plainText uuid1
   \<and> patchOf (mutatePods (decodeAs examplePod) ''secrets-init:1'' uuid1 podRequest) \<noteq> []
   \<and> valid_json_array (patchOf (mutatePods (decodeAs examplePod) ''secrets-init:1'' uuid1 podRequest))"
proof -
  have h: "Request_Resource podRequest = podResource"
    "decodeAs examplePod (Request_Object_Raw podRequest) = Inr examplePod"
    "secretAnnotations examplePod \<noteq> []"
    "Containers examplePod \<noteq> []"
    "list_all plainText (secretAnnotations examplePod)"
    "plainText ''secrets-init:1''"
    "plainText uuid1"
    by (simp_all add: podRequest_def decodeAs_def secretAnnotations_examplePod plainText_def
        plainChar_def uuid1_def) (simp_all add: examplePod_def)
  have g: "\<not> hasContainer (InitContainers examplePod) ''secrets-init-container''"
    by (simp add: examplePod_def)
  from h g mutatePods_patch_valid_json
    [of podRequest "decodeAs examplePod" examplePod "''secrets-init:1''" uuid1]
  obtain r patch where
    "mutatePods (decodeAs examplePod) ''secrets-init:1'' uuid1 podRequest = Returns (Some r)"
    and "Patch r = Some patch" and "valid_json_array patch"
    by auto
  then have "patchOf (mutatePods (decodeAs examplePod) ''secrets-init:1'' uuid1 podRequest) = patch"
    and "valid_json_array patch"
    by (simp_all add: patchOf_def)
  moreover from this have "patch \<noteq> []"
    by (auto simp: valid_json_array_def)
  ultimately show ?thesis
    using h by (simp add: secretAnnotations_examplePod)
qed

lemma secretAnnotations_quotedPod:
  \<open>secretAnnotations quotedPod = [''secrets.k8s.aws/db"password'']\<close>
  by (simp add: secretAnnotations_def quotedPod_def secretAnnotation_def)

text \<open>
  C5. The claim is that the patch of every pod with a scanned key and a container parses
  as a JSON array. The keys, like the image, go into the patch as they are, with nothing
  escaped. On \<^term>\<open>quotedPod\<close>, whose one scanned key holds a quotation mark and which
  has one container, \<^verbatim>\<open>mutatePods\<close> returns a patch, and the patch is not valid JSON: the
  string that holds the key ends at the quotation mark.
\<close>

theorem mutatePods_quoted_key_invalid_json:
  \<open>secretAnnotations quotedPod = [''secrets.k8s.aws/db"password'']
   \<and> length (Containers quotedPod) = 1
   \<and> patchOf (mutatePods (decodeAs quotedPod) ''secrets-init:1'' uuid1 podRequest) \<noteq> []
   \<and> \<not> valid_json_array (patchOf (mutatePods (decodeAs quotedPod) ''secrets-init:1'' uuid1 podRequest))\<close>
proof -
  have should: "shouldPatchPod quotedPod"
    by (simp add: shouldPatchPod_iff secretAnnotations_quotedPod) (simp add: quotedPod_def)
  have cs: "Containers quotedPod = [\<lparr>Name = ''app'', Image = ''nginx''\<rparr>]"
    by (simp add: quotedPod_def)
  have p: \<open>patchOf (mutatePods (decodeAs quotedPod) ''secrets-init:1'' uuid1 podRequest)
     = ''['' @ initContainersShell (butlast (initContainerEntries ''secrets-init:1'' 0
                                      [''secrets.k8s.aws/db"password'']))
       @ secretsMountPointPatch @ '','' @ volumeMountPatch uuid1 0 @ '','' @ envPatch 0 uuid1 @ '']''\<close>
    using should
    by (simp add: patchOf_def mutatePods_def applyPodPatch_def podRequest_def decodeAs_def
        processAnnotations_entries secretAnnotations_quotedPod cs containerStep_def
        emptyResponse_def)
  have bad: \<open>json_run (''['' @ initContainersShell (butlast (initContainerEntries ''secrets-init:1'' 0
                                      [''secrets.k8s.aws/db"password''])))
               (BeginValue, [])
             = (Invalid, [InObject, InObject, InObject, InArray, InObject, InArray, InObject, InArray])\<close>
    by (simp add: initContainersShell_def initContainerEntry_def butlast_append Itoa_0
        json_run_Cons json_run_Nil json_chars json_run_Invalid)
  have "json_run (patchOf (mutatePods (decodeAs quotedPod) ''secrets-init:1'' uuid1 podRequest))
          (BeginValue, [])
        = (Invalid, [InObject, InObject, InObject, InArray, InObject, InArray, InObject, InArray])"
    unfolding p
    by (simp only: json_run_append bad [unfolded json_run_append] json_run_Invalid)
  then have "\<not> valid_json_array (patchOf (mutatePods (decodeAs quotedPod) ''secrets-init:1'' uuid1 podRequest))"
    by (simp add: valid_json_array_def valid_json_def json_accepting_def)
  moreover have "patchOf (mutatePods (decodeAs quotedPod) ''secrets-init:1'' uuid1 podRequest) \<noteq> []"
    unfolding p by simp
  ultimately show ?thesis
    by (simp add: secretAnnotations_quotedPod cs)
qed

section \<open>The patch for one key and two containers\<close>

lemma containers_two:
  "fold (containerStep ml) [0 ..< 2] ([], [])
   = (volumeMountPatch ml 0 @ '','' @ volumeMountPatch ml 1, envPatch 0 ml @ '','' @ envPatch 1 ml)"
  by (simp add: containerStep_def numeral_2_eq_2)

text \<open>What \<^verbatim>\<open>applyPodPatch\<close> returns for one scanned key and two containers, whatever the
  closure and the fragment it is called with.\<close>

lemma applyPodPatch_one_key_two_containers:
  assumes "Request_Resource ar = podResource"
    and "decodePod (Request_Object_Raw ar) = Inr pod"
    and "should pod"
    and "secretAnnotations pod = [annotation]"
    and "length (Containers pod) = 2"
  shows \<open>applyPodPatch decodePod sidecarImage mountLocation ar should patch1
    = Returns (Some
       \<lparr>Allowed = True, Result = None,
        Patch = Some
         (''[{"op":"add","path":"/spec/initContainers","value":[''
          @ ''{"image":"'' @ sidecarImage @ ''","name":"secrets-init-container-0",''
          @ ''"volumeMounts":[{"name":"secret-vol","mountPath":"/tmp"}],''
          @ ''"env":[{"name": "SECRET_ARN","valueFrom": {"fieldRef": {"fieldPath": ''
          @ ''"metadata.annotations['' @ [CHR 0x27] @ annotation @ [CHR 0x27] @ '']"}}}],''
          @ ''"resources":{}}]},''
          @ ''{"op":"add","path":"/spec/volumes/-","value":{"emptyDir": {"medium": "Memory"},"name": "secret-vol"}},''
          @ ''{"op": "add","path": "/spec/containers/0/volumeMounts/-","value": {"mountPath": "/tmp/''
          @ mountLocation @ ''","name": "secret-vol"}},''
          @ ''{"op": "add","path": "/spec/containers/1/volumeMounts/-","value": {"mountPath": "/tmp/''
          @ mountLocation @ ''","name": "secret-vol"}},''
          @ ''{"op":"add","path":"/spec/containers/0/env/-","value":{"name":"SEC_LOC","value":"/tmp/''
          @ mountLocation @ ''"}},''
          @ ''{"op":"add","path":"/spec/containers/1/env/-","value":{"name":"SEC_LOC","value":"/tmp/''
          @ mountLocation @ ''"}}]''),
        PatchType = Some PatchTypeJSONPatch\<rparr>)\<close>
proof -
  have scan: "secretAnnotations pod \<noteq> []"
    using assms(4) by simp
  have loop: "fold (containerStep mountLocation) [0 ..< length (Containers pod)] ([], [])
     = (volumeMountPatch mountLocation 0 @ '','' @ volumeMountPatch mountLocation 1,
        envPatch 0 mountLocation @ '','' @ envPatch 1 mountLocation)"
    using assms(5) containers_two by simp
  show ?thesis
    using assms(1,2,3)
    by (simp add: applyPodPatch_def processAnnotations_entries [OF scan] assms(4) loop
        initContainersShell_def initContainerEntry_def secretsMountPointPatch_def
        volumeMountPatch_def envPatch_def Itoa_0 Itoa_1 emptyResponse_def butlast_append)
qed

lemma applyPodPatch_examplePod:
  assumes "should pod" and "Annotations pod = Annotations examplePod"
    and "Containers pod = Containers examplePod"
  shows "applyPodPatch (decodeAs pod) ''secrets-init:1'' ml podRequest should patch1
         = Returns (Some \<lparr>Allowed = True, Result = None, Patch = Some (examplePatch ml),
                          PatchType = Some PatchTypeJSONPatch\<rparr>)"
proof -
  have "secretAnnotations pod = [''secrets.k8s.aws/secret-arn'']"
    using secretAnnotations_examplePod assms(2) by (simp add: secretAnnotations_def)
  moreover have "length (Containers pod) = 2"
    using assms(3) by (simp add: examplePod_def)
  ultimately show ?thesis
    using assms(1) applyPodPatch_one_key_two_containers
      [of podRequest "decodeAs pod" pod should "''secrets.k8s.aws/secret-arn''"
        "''secrets-init:1''" ml patch1]
    by (simp add: podRequest_def decodeAs_def examplePatch_def)
qed




section \<open>Calling mutatePods on a patched pod\<close>

text \<open>The guard looks for the name \<^verbatim>\<open>secrets-init-container\<close>; the injected containers
  are named \<^verbatim>\<open>secrets-init-container-0\<close>, \<^verbatim>\<open>secrets-init-container-1\<close> and so on. So a
  pod that has been patched is patched again.\<close>

lemma injected_not_guarded:
  "\<not> hasContainer (InitContainers (injected img pod)) ''secrets-init-container''"
  by (auto simp: hasContainer_iff injected_def)

lemma injected_patched_again:
  "secretAnnotations pod \<noteq> [] \<Longrightarrow> shouldPatchPod (injected img pod)"
  using injected_not_guarded [of img pod]
  by (simp add: shouldPatchPod_iff) (simp add: injected_def secretAnnotations_def)

lemma injected_examplePod:
  "injected ''secrets-init:1'' examplePod
   = examplePod\<lparr>InitContainers :=
       [\<lparr>Name = ''secrets-init-container-0'', Image = ''secrets-init:1''\<rparr>]\<rparr>"
  by (simp add: injected_def secretAnnotations_examplePod Itoa_0)

text \<open>
  C1. The claim is that the second call, on the patched pod, returns an empty patch. The
  first call on \<^term>\<open>examplePod\<close> returns the patch that adds the init container
  \<^verbatim>\<open>secrets-init-container-0\<close>; the patched pod has that init container; the second call,
  on the patched pod, returns the whole patch once more.
\<close>

theorem mutatePods_twice:
  "mutatePods (decodeAs examplePod) ''secrets-init:1'' uuid1 podRequest
     = Returns (Some \<lparr>Allowed = True, Result = None, Patch = Some (examplePatch uuid1),
                      PatchType = Some PatchTypeJSONPatch\<rparr>)
   \<and> injected ''secrets-init:1'' examplePod
     = examplePod\<lparr>InitContainers :=
         [\<lparr>Name = ''secrets-init-container-0'', Image = ''secrets-init:1''\<rparr>]\<rparr>
   \<and> mutatePods (decodeAs (injected ''secrets-init:1'' examplePod)) ''secrets-init:1'' uuid2 podRequest
     = Returns (Some \<lparr>Allowed = True, Result = None, Patch = Some (examplePatch uuid2),
                      PatchType = Some PatchTypeJSONPatch\<rparr>)"
proof -
  have first: "shouldPatchPod examplePod"
    by (simp add: shouldPatchPod_iff secretAnnotations_examplePod) (simp add: examplePod_def)
  have second: "shouldPatchPod (injected ''secrets-init:1'' examplePod)"
    by (rule injected_patched_again) (simp add: secretAnnotations_examplePod)
  show ?thesis
    unfolding mutatePods_def
    using first second injected_examplePod
      applyPodPatch_examplePod [of shouldPatchPod examplePod uuid1 "[]"]
      applyPodPatch_examplePod
        [of shouldPatchPod "injected ''secrets-init:1'' examplePod" uuid2 "[]"]
    by (simp add: injected_def)
qed

section \<open>Responses that are missing\<close>

lemma mutatePods_never_panics:
  "mutatePods decodePod sidecarImage mountLocation ar \<noteq> Panics"
proof (cases "decodePod (Request_Object_Raw ar)")
  case (Inl err)
  then show ?thesis
    by (simp add: mutatePods_def applyPodPatch_def)
next
  case (Inr pod)
  show ?thesis
  proof (cases "shouldPatchPod pod")
    case True
    then have "secretAnnotations pod \<noteq> []"
      by (simp add: shouldPatchPod_iff)
    then show ?thesis
      using Inr by (simp add: mutatePods_def applyPodPatch_def processAnnotations_entries
          case_prod_beta)
  next
    case False
    then show ?thesis
      using Inr by (simp add: mutatePods_def applyPodPatch_def)
  qed
qed

text \<open>
  C3. The claim is that the mutation functions return a response for every request and
  never abort. For a request whose resource is not pods, \<^verbatim>\<open>mutatePods\<close> and
  \<^verbatim>\<open>mutatePodsSidecar\<close> return \<^verbatim>\<open>nil\<close>. For a pod without scanned annotation keys and
  without the sidecar container, \<^verbatim>\<open>mutatePodsSidecar\<close> reaches the slice of the empty
  string in \<^verbatim>\<open>processAnnotations\<close> and panics.
\<close>

theorem mutatePods_nil_and_panic:
  "mutatePods (decodeAs examplePod) ''secrets-init:1'' uuid1 deploymentRequest = Returns None
   \<and> mutatePodsSidecar (decodeAs examplePod) ''secrets-init:1'' uuid1 deploymentRequest = Returns None
   \<and> secretAnnotations plainPod = []
   \<and> mutatePodsSidecar (decodeAs plainPod) ''secrets-init:1'' uuid1 podRequest = Panics"
  by (simp add: mutatePods_def mutatePodsSidecar_def applyPodPatch_def deploymentRequest_def
      podResource_def podRequest_def decodeAs_def shouldPatchPodSidecar_def
      processAnnotations_def secretAnnotations_def secretAnnotation_def plainPod_def)

section \<open>The sidecar strategy\<close>

text \<open>
  C4. The claim is that \<^verbatim>\<open>mutatePodsSidecar\<close>, on a pod without the sidecar container,
  returns the patch that appends the container \<^verbatim>\<open>webhook-added-sidecar\<close>. The function
  hands that patch to \<^verbatim>\<open>applyPodPatch\<close>, which does not use it: on \<^term>\<open>examplePod\<close>
  the answer is the patch of the init containers, and on a pod without scanned keys the
  call panics.
\<close>

theorem mutatePodsSidecar_ignores_fragment:
  "\<not> hasContainer (Containers examplePod) ''webhook-added-sidecar''
   \<and> mutatePodsSidecar (decodeAs examplePod) ''secrets-init:1'' uuid1 podRequest
     = Returns (Some \<lparr>Allowed = True, Result = None, Patch = Some (examplePatch uuid1),
                      PatchType = Some PatchTypeJSONPatch\<rparr>)
   \<and> examplePatch uuid1 \<noteq> podsSidecarPatch ''secrets-init:1''
   \<and> \<not> hasContainer (Containers plainPod) ''webhook-added-sidecar''
   \<and> mutatePodsSidecar (decodeAs plainPod) ''secrets-init:1'' uuid1 podRequest = Panics"
proof -
  have a: "\<not> hasContainer (Containers examplePod) ''webhook-added-sidecar''"
    by (simp add: examplePod_def)
  then have s: "shouldPatchPodSidecar examplePod"
    by (simp add: shouldPatchPodSidecar_def)
  have b: "mutatePodsSidecar (decodeAs examplePod) ''secrets-init:1'' uuid1 podRequest
     = Returns (Some \<lparr>Allowed = True, Result = None, Patch = Some (examplePatch uuid1),
                      PatchType = Some PatchTypeJSONPatch\<rparr>)"
    using s applyPodPatch_examplePod
        [of shouldPatchPodSidecar examplePod uuid1 "podsSidecarPatch ''secrets-init:1''"]
    by (simp add: mutatePodsSidecar_def)
  have c: "examplePatch uuid1 \<noteq> podsSidecarPatch ''secrets-init:1''"
    by (simp add: examplePatch_def podsSidecarPatch_def)
  have d: "\<not> hasContainer (Containers plainPod) ''webhook-added-sidecar''"
    by (simp add: plainPod_def)
  have e: "mutatePodsSidecar (decodeAs plainPod) ''secrets-init:1'' uuid1 podRequest = Panics"
    by (simp add: mutatePodsSidecar_def applyPodPatch_def podRequest_def decodeAs_def
        shouldPatchPodSidecar_def processAnnotations_def plainPod_def)
  from a b c d e show ?thesis by simp
qed

end
